theory Spec2Isabelle
  imports Main "HOL-Library.Sublist"
begin

section \<open>The setup script of musicpal\<close>

text \<open>
  The repository consists of one Python script, \<^verbatim>\<open>setup.py\<close>. It reads the file
  \<^verbatim>\<open>README.md\<close> in text mode and then calls \<^verbatim>\<open>setup\<close> of setuptools once, with
  keyword arguments that are literals, except \<^verbatim>\<open>long_description\<close>, which is the
  text just read.
\<close>

subsection \<open>Python values and keyword arguments\<close>

text \<open>
  The values that occur as keyword arguments of the call: strings, lists of strings
  and one dictionary from strings to strings. The keyword arguments themselves are a
  dictionary in the order of the call, here an association list; Python rejects a
  call that repeats a keyword, so the keys are distinct.
\<close>

datatype pyvalue =
    Str string
  | StrList "string list"
  | Dict "(string \<times> pyvalue) list"

type_synonym kwargs = "(string \<times> pyvalue) list"

text \<open>The call \<^verbatim>\<open>setup(name="musicpal", ...)\<close>, lines 8 to 27 of the script.\<close>

definition setup_kwargs :: "string \<Rightarrow> kwargs" where
  "setup_kwargs long_description =
    [(''name'', Str ''musicpal''),
     (''author'', Str ''Joerg Mechnich''),
     (''author_email'', Str ''joerg.mechnich@gmail.com''),
     (''license'', Str ''GNU GPLv3''),
     (''description'',
        Str ''Command line interface for remote controlling a Freecom MusicPal''),
     (''long_description'', Str long_description),
     (''long_description_content_type'', Str ''text/markdown''),
     (''url'', Str ''https://github.com/jmechnich/musicpal''),
     (''scripts'', StrList [''musicpal'']),
     (''use_scm_version'', Dict [(''local_scheme'', Str ''no-local-version'')]),
     (''setup_requires'', StrList [''setuptools_scm'']),
     (''install_requires'', StrList [''beautifulsoup4'', ''lxml'', ''requests'']),
     (''classifiers'', StrList
        [''Programming Language :: Python :: 3'',
         ''License :: OSI Approved :: GNU General Public License v3 (GPLv3)'',
         ''Operating System :: POSIX :: Linux'']),
     (''python_requires'', Str ''>=3.8'')]"

text \<open>Looking a keyword up, as \<^verbatim>\<open>kwargs.get(key)\<close> does.\<close>

definition kwarg :: "kwargs \<Rightarrow> string \<Rightarrow> pyvalue option" where
  "kwarg kw key = map_of kw key"

subsection \<open>Files, and reading one in text mode\<close>

text \<open>
  A path names nothing, a directory, or a regular file with its bytes and whether
  the process may read it. \<^verbatim>\<open>open("README.md", "r")\<close> gives no encoding, so the
  bytes are decoded by the codec of the locale, which the script does not fix: it is
  a component of the environment, and returns \<open>None\<close> on bytes that it rejects.
\<close>

datatype node =
    Directory
  | RegularFile bool string

datatype os_error =
    FileNotFoundError
  | IsADirectoryError
  | PermissionError
  | UnicodeDecodeError

record env =
  files :: "string \<rightharpoonup> node"
  decode :: "string \<Rightarrow> string option"

abbreviation CR :: char where
  "CR \<equiv> CHR 0x0D"

abbreviation LF :: char where
  "LF \<equiv> CHR 0x0A"

text \<open>
  Mode \<^verbatim>\<open>"r"\<close> without a \<^verbatim>\<open>newline\<close> argument is universal newlines mode: on
  input each of \<^verbatim>\<open>\r\n\<close>, \<^verbatim>\<open>\r\<close> and \<^verbatim>\<open>\n\<close> arrives as \<^verbatim>\<open>\n\<close>.
\<close>

fun universal_newlines :: "string \<Rightarrow> string" where
  "universal_newlines [] = []"
| "universal_newlines [c] = (if c = CR then [LF] else [c])"
| "universal_newlines (c # d # ds) =
     (if c = CR \<and> d = LF then LF # universal_newlines ds
      else if c = CR then LF # universal_newlines (d # ds)
      else c # universal_newlines (d # ds))"

text \<open>\<^verbatim>\<open>open(path, "r")\<close>: the handle of a readable regular file, here its bytes.\<close>

definition py_open :: "env \<Rightarrow> string \<Rightarrow> os_error + string" where
  "py_open e path =
     (case files e path of
        None \<Rightarrow> Inl FileNotFoundError
      | Some Directory \<Rightarrow> Inl IsADirectoryError
      | Some (RegularFile readable bytes) \<Rightarrow>
          if readable then Inr bytes else Inl PermissionError)"

text \<open>\<^verbatim>\<open>fh.read()\<close> on a text handle: decode everything, then translate newlines.\<close>

definition py_read :: "env \<Rightarrow> string \<Rightarrow> os_error + string" where
  "py_read e bytes =
     (case decode e bytes of
        None \<Rightarrow> Inl UnicodeDecodeError
      | Some text \<Rightarrow> Inr (universal_newlines text))"

subsection \<open>The script\<close>

text \<open>
  \<^verbatim>\<open>setup\<close> belongs to setuptools. The script is modelled for every such function:
  it takes the keyword arguments and the packaging state (whatever \<^verbatim>\<open>setup\<close> reads
  and changes) to the state after the call. The result of the script is the
  exception that leaves it, if any, and the packaging state at that moment. The
  \<^verbatim>\<open>with\<close> block closes the handle on both paths, so no handle is part of the
  result.
\<close>

definition setup_py ::
    "(kwargs \<Rightarrow> 'st \<Rightarrow> 'st) \<Rightarrow> env \<Rightarrow> 'st \<Rightarrow> (os_error + unit) \<times> 'st" where
  "setup_py setup e st =
     (case py_open e ''README.md'' of
        Inl err \<Rightarrow> (Inl err, st)
      | Inr fh \<Rightarrow>
          (case py_read e fh of
             Inl err \<Rightarrow> (Inl err, st)
           | Inr long_description \<Rightarrow>
               (Inr (), setup (setup_kwargs long_description) st)))"

text \<open>
  One \<^verbatim>\<open>setup\<close> to run the script with: it registers the metadata it is given, so
  the state is the list of the calls made so far.
\<close>

definition register :: "kwargs \<Rightarrow> kwargs list \<Rightarrow> kwargs list" where
  "register kw registry = registry @ [kw]"

subsection \<open>Version specifiers\<close>

text \<open>
  Modelled from the spec: the check of \<^verbatim>\<open>python_requires\<close> against the running
  interpreter is made by the installer, which is not part of this repository. What
  is modelled is the one clause form the script uses, \<^verbatim>\<open>>=V\<close>: the release of
  \<^verbatim>\<open>V\<close> is its dot-separated decimal numbers, and the clause admits a version
  whose release is at least that of \<^verbatim>\<open>V\<close> in lexicographic order, the shorter
  release padded with zeros. Any other clause is \<open>None\<close>.
\<close>

definition digit_of :: "char \<Rightarrow> nat option" where
  "digit_of c =
     (let n = (of_char c :: nat) in if 48 \<le> n \<and> n \<le> 57 then Some (n - 48) else None)"

fun parse_digits :: "nat \<Rightarrow> string \<Rightarrow> nat option" where
  "parse_digits acc [] = Some acc"
| "parse_digits acc (c # cs) =
     (case digit_of c of
        None \<Rightarrow> None
      | Some d \<Rightarrow> parse_digits (10 * acc + d) cs)"

definition parse_nat :: "string \<Rightarrow> nat option" where
  "parse_nat s = (if s = [] then None else parse_digits 0 s)"

fun split_on :: "char \<Rightarrow> string \<Rightarrow> string list" where
  "split_on sep [] = [[]]"
| "split_on sep (c # cs) =
     (if c = sep then [] # split_on sep cs
      else (case split_on sep cs of
              [] \<Rightarrow> [[c]]
            | w # ws \<Rightarrow> (c # w) # ws))"

definition parse_release :: "string \<Rightarrow> nat list option" where
  "parse_release s = those (map parse_nat (split_on (CHR ''.'') s))"

fun release_le :: "nat list \<Rightarrow> nat list \<Rightarrow> bool" where
  "release_le [] ys = True"
| "release_le (x # xs) [] = (x = 0 \<and> release_le xs [])"
| "release_le (x # xs) (y # ys) = (x < y \<or> (x = y \<and> release_le xs ys))"

definition specifier_contains :: "string \<Rightarrow> nat list \<Rightarrow> bool option" where
  "specifier_contains spec version =
     (if take 2 spec = ''>=''
      then map_option (\<lambda>r. release_le r version) (parse_release (drop 2 spec))
      else None)"

subsection \<open>The version that setuptools_scm derives\<close>

text \<open>
  Modelled from the spec: setuptools_scm, which computes the version when
  \<^verbatim>\<open>use_scm_version\<close> is passed, is not part of this repository. It joins the
  result of a version scheme (the public part, from the latest tag and the distance
  to it) with the result of a local scheme, chosen by name through the key
  \<^verbatim>\<open>local_scheme\<close> of \<^verbatim>\<open>use_scm_version\<close>; without that key the scheme is
  \<^verbatim>\<open>node-and-date\<close>. The local schemes are the four that its documentation lists.
\<close>

record scm_state =
  main_version :: string
  distance :: nat
  node :: string
  dirty :: bool
  date :: string
  timestamp :: string

definition node_and_time :: "string \<Rightarrow> scm_state \<Rightarrow> string" where
  "node_and_time time s =
     (if distance s = 0
      then (if dirty s then ''+d'' @ time else [])
      else (if dirty s then ''+'' @ node s @ ''.d'' @ time else ''+'' @ node s))"

definition local_version :: "string \<Rightarrow> scm_state \<Rightarrow> string option" where
  "local_version scheme s =
     (if scheme = ''node-and-date'' then Some (node_and_time (date s) s)
      else if scheme = ''node-and-timestamp'' then Some (node_and_time (timestamp s) s)
      else if scheme = ''dirty-tag'' then Some (if dirty s then ''+dirty'' else [])
      else if scheme = ''no-local-version'' then Some []
      else None)"

definition local_scheme_of :: "kwargs \<Rightarrow> string option" where
  "local_scheme_of kw =
     (case kwarg kw ''use_scm_version'' of
        Some (Dict config) \<Rightarrow>
          (case map_of config ''local_scheme'' of
             Some (Str scheme) \<Rightarrow> Some scheme
           | Some other \<Rightarrow> None
           | None \<Rightarrow> Some ''node-and-date'')
      | Some other \<Rightarrow> None
      | None \<Rightarrow> None)"

definition scm_version :: "kwargs \<Rightarrow> scm_state \<Rightarrow> string option" where
  "scm_version kw s =
     (case local_scheme_of kw of
        None \<Rightarrow> None
      | Some scheme \<Rightarrow> map_option (\<lambda>l. main_version s @ l) (local_version scheme s))"

section \<open>The declared metadata\<close>

lemma classifiers_value:
  "kwarg (setup_kwargs ld) ''classifiers'' = Some (StrList
     [''Programming Language :: Python :: 3'',
      ''License :: OSI Approved :: GNU General Public License v3 (GPLv3)'',
      ''Operating System :: POSIX :: Linux''])"
  by (simp add: kwarg_def setup_kwargs_def)

lemma long_description_value:
  "kwarg (setup_kwargs ld) ''long_description'' = Some (Str ld)"
  by (simp add: kwarg_def setup_kwargs_def)

lemma content_type_value:
  "kwarg (setup_kwargs ld) ''long_description_content_type'' = Some (Str ''text/markdown'')"
  by (simp add: kwarg_def setup_kwargs_def)

lemma parse_release_python_requires: "parse_release ''3.8'' = Some [3, 8]"
  by (simp add: parse_release_def parse_nat_def digit_of_def)

lemma universal_newlines_no_CR:
  "CR \<notin> set s \<Longrightarrow> universal_newlines s = s"
  by (induction s rule: universal_newlines.induct) auto

text \<open>
  Claim C1. The install-time dependencies are exactly \<^verbatim>\<open>beautifulsoup4\<close>,
  \<^verbatim>\<open>lxml\<close> and \<^verbatim>\<open>requests\<close>: the list has these three entries and no other, and
  the call declares no optional dependencies (\<^verbatim>\<open>extras_require\<close>) beside them.
\<close>

theorem install_requires_exactly_three:
  "kwarg (setup_kwargs ld) ''install_requires'' =
     Some (StrList [''beautifulsoup4'', ''lxml'', ''requests''])
   \<and> kwarg (setup_kwargs ld) ''extras_require'' = None"
  by (simp add: kwarg_def setup_kwargs_def)

text \<open>
  Claim C2. The scripts list has one entry, and it is the declared name of the
  package: both are \<^verbatim>\<open>musicpal\<close>.
\<close>

theorem script_named_by_package:
  "kwarg (setup_kwargs ld) ''name'' = Some (Str ''musicpal'')
   \<and> kwarg (setup_kwargs ld) ''scripts'' = Some (StrList [''musicpal''])
   \<and> (\<exists>n. kwarg (setup_kwargs ld) ''name'' = Some (Str n)
          \<and> kwarg (setup_kwargs ld) ''scripts'' = Some (StrList [n]))"
  by (simp add: kwarg_def setup_kwargs_def)

text \<open>
  Claim C5. The classifier list contains the entry
  \<^verbatim>\<open>Operating System :: POSIX :: Linux\<close>.
\<close>

theorem classifiers_target_linux:
  "\<exists>cs. kwarg (setup_kwargs ld) ''classifiers'' = Some (StrList cs)
        \<and> ''Operating System :: POSIX :: Linux'' \<in> set cs"
  by (simp add: classifiers_value)

text \<open>
  Claim C6. The description field is the sentence
  \<^verbatim>\<open>Command line interface for remote controlling a Freecom MusicPal\<close>.
\<close>

theorem description_value:
  "kwarg (setup_kwargs ld) ''description'' =
     Some (Str ''Command line interface for remote controlling a Freecom MusicPal'')"
  by (simp add: kwarg_def setup_kwargs_def)

text \<open>
  Claim C3. The license field is \<^verbatim>\<open>GNU GPLv3\<close>; the classifier list has exactly
  one license classifier, and it is the one of the GNU General Public License v3,
  which carries the same short name \<^verbatim>\<open>GPLv3\<close> as the license field. So the two
  declarations name the same license.
\<close>

theorem license_consistent:
  "kwarg (setup_kwargs ld) ''license'' = Some (Str ''GNU GPLv3'')
   \<and> sublist ''GPLv3'' ''GNU GPLv3''
   \<and> (\<exists>cs. kwarg (setup_kwargs ld) ''classifiers'' = Some (StrList cs)
          \<and> filter (prefix ''License ::'') cs =
              [''License :: OSI Approved :: GNU General Public License v3 (GPLv3)''])
   \<and> sublist ''GNU General Public License v3''
        ''License :: OSI Approved :: GNU General Public License v3 (GPLv3)''
   \<and> sublist ''GPLv3''
        ''License :: OSI Approved :: GNU General Public License v3 (GPLv3)''"
proof -
  have field: "kwarg (setup_kwargs ld) ''license'' = Some (Str ''GNU GPLv3'')"
    by (simp add: kwarg_def setup_kwargs_def)
  have short: "sublist ''GPLv3'' ''GNU GPLv3''"
    by (simp add: sublist_code(3))
  have only: "\<exists>cs. kwarg (setup_kwargs ld) ''classifiers'' = Some (StrList cs)
          \<and> filter (prefix ''License ::'') cs =
              [''License :: OSI Approved :: GNU General Public License v3 (GPLv3)'']"
    by (simp add: classifiers_value)
  have long: "sublist ''GNU General Public License v3''
        ''License :: OSI Approved :: GNU General Public License v3 (GPLv3)''"
    by (simp add: sublist_code(3))
  have tag: "sublist ''GPLv3''
        ''License :: OSI Approved :: GNU General Public License v3 (GPLv3)''"
    by (simp add: sublist_code(3))
  from field short only long tag show ?thesis by blast
qed

text \<open>
  Claim C4. \<^verbatim>\<open>python_requires\<close> is \<^verbatim>\<open>>=3.8\<close>, and an interpreter of version
  \<open>major.minor.micro\<close> satisfies that clause exactly when it is 3.8 or later: a
  major version above 3, or major version 3 with a minor version of at least 8.
\<close>

theorem python_requires_minimum:
  "kwarg (setup_kwargs ld) ''python_requires'' = Some (Str ''>=3.8'')
   \<and> specifier_contains ''>=3.8'' [major, minor, micro]
       = Some (3 < major \<or> (major = 3 \<and> 8 \<le> minor))"
proof -
  have "kwarg (setup_kwargs ld) ''python_requires'' = Some (Str ''>=3.8'')"
    by (simp add: kwarg_def setup_kwargs_def)
  moreover have "specifier_contains ''>=3.8'' [major, minor, micro]
       = Some (release_le [3, 8] [major, minor, micro])"
    by (simp add: specifier_contains_def parse_release_python_requires)
  moreover have "release_le [3, 8] [major, minor, micro]
       = (3 < major \<or> (major = 3 \<and> 8 \<le> minor))"
    by auto
  ultimately show ?thesis by simp
qed

text \<open>
  Claim C10. The call passes no \<^verbatim>\<open>version\<close>; it requires setuptools_scm at setup
  time and hands it the local scheme \<^verbatim>\<open>no-local-version\<close>. Under that scheme the
  local segment is empty whatever the state of the working tree, so the derived
  version is the public part alone.
\<close>

theorem version_from_scm:
  "kwarg (setup_kwargs ld) ''version'' = None
   \<and> kwarg (setup_kwargs ld) ''setup_requires'' = Some (StrList [''setuptools_scm''])
   \<and> kwarg (setup_kwargs ld) ''use_scm_version''
       = Some (Dict [(''local_scheme'', Str ''no-local-version'')])
   \<and> local_scheme_of (setup_kwargs ld) = Some ''no-local-version''
   \<and> local_version ''no-local-version'' s = Some []
   \<and> scm_version (setup_kwargs ld) s = Some (main_version s)"
  by (simp add: kwarg_def setup_kwargs_def local_scheme_of_def local_version_def
      scm_version_def)

section \<open>Reading the long description\<close>

text \<open>
  Claim C8. When opening \<^verbatim>\<open>README.md\<close> fails, or the handle opens and reading it
  fails, the script ends with that error and the packaging state is the one it
  started in, for every \<^verbatim>\<open>setup\<close>: the call is never reached.
\<close>

theorem readme_failure_skips_setup:
  assumes "py_open e ''README.md'' = Inl err
     \<or> (\<exists>fh. py_open e ''README.md'' = Inr fh \<and> py_read e fh = Inl err)"
  shows "setup_py setup e st = (Inl err, st)"
  using assms by (auto simp: setup_py_def)

text \<open>
  Two runs for claim C8 with the registering \<^verbatim>\<open>setup\<close>: no file of that name, and
  a readable file whose bytes the codec rejects. Both leave the registry empty.
\<close>

theorem readme_failure_skips_setup_witness:
  "py_open \<lparr>files = Map.empty, decode = Some\<rparr> ''README.md'' = Inl FileNotFoundError
   \<and> setup_py register \<lparr>files = Map.empty, decode = Some\<rparr> [] = (Inl FileNotFoundError, [])
   \<and> py_open \<lparr>files = [''README.md'' \<mapsto> RegularFile True ''abc''], decode = (\<lambda>b. None)\<rparr>
        ''README.md'' = Inr ''abc''
   \<and> py_read \<lparr>files = [''README.md'' \<mapsto> RegularFile True ''abc''], decode = (\<lambda>b. None)\<rparr>
        ''abc'' = Inl UnicodeDecodeError
   \<and> setup_py register
        \<lparr>files = [''README.md'' \<mapsto> RegularFile True ''abc''], decode = (\<lambda>b. None)\<rparr> []
       = (Inl UnicodeDecodeError, [])"
proof -
  let ?missing = "\<lparr>files = Map.empty, decode = Some\<rparr>"
  let ?garbled =
    "\<lparr>files = [''README.md'' \<mapsto> RegularFile True ''abc''], decode = (\<lambda>b. None)\<rparr>"
  have a: "py_open ?missing ''README.md'' = Inl FileNotFoundError"
    by (simp add: py_open_def)
  have b: "py_open ?garbled ''README.md'' = Inr ''abc''"
    by (simp add: py_open_def)
  have c: "py_read ?garbled ''abc'' = Inl UnicodeDecodeError"
    by (simp add: py_read_def)
  from a have "setup_py register ?missing [] = (Inl FileNotFoundError, [])"
    by (intro readme_failure_skips_setup) simp
  moreover from b c have "setup_py register ?garbled [] = (Inl UnicodeDecodeError, [])"
    by (intro readme_failure_skips_setup) simp
  ultimately show ?thesis using a b c by simp
qed

text \<open>
  Claim C9 says that the long description is the content of the file, unchanged,
  for every content. It is not for a content with a carriage return: of the four
  characters \<^verbatim>\<open>a\r\nb\<close>, decoded as they are, \<^verbatim>\<open>setup\<close> receives the three
  characters \<^verbatim>\<open>a\nb\<close>.
\<close>

theorem long_description_verbatim_counterexample:
  "setup_py register
      \<lparr>files = [''README.md'' \<mapsto> RegularFile True [CHR ''a'', CR, LF, CHR ''b'']],
       decode = Some\<rparr> []
     = (Inr (), [setup_kwargs [CHR ''a'', LF, CHR ''b'']])
   \<and> kwarg (setup_kwargs [CHR ''a'', LF, CHR ''b'']) ''long_description''
       = Some (Str [CHR ''a'', LF, CHR ''b''])
   \<and> [CHR ''a'', LF, CHR ''b''] \<noteq> [CHR ''a'', CR, LF, CHR ''b'']"
  by (simp add: setup_py_def py_open_def py_read_def register_def long_description_value)

text \<open>
  Claim C9, as amended. For every readable \<^verbatim>\<open>README.md\<close> whose bytes the codec
  of the locale decodes, \<^verbatim>\<open>setup\<close> is called once, and its long description is the
  decoded text after the newline translation of text mode and nothing else; for a
  text with no carriage return that is the text itself. The declared content type
  is \<^verbatim>\<open>text/markdown\<close>.
\<close>

theorem long_description_is_text_read:
  assumes "files e ''README.md'' = Some (RegularFile True bytes)"
    and "decode e bytes = Some decoded"
  shows "setup_py setup e st
           = (Inr (), setup (setup_kwargs (universal_newlines decoded)) st)
         \<and> kwarg (setup_kwargs (universal_newlines decoded)) ''long_description''
             = Some (Str (universal_newlines decoded))
         \<and> kwarg (setup_kwargs (universal_newlines decoded)) ''long_description_content_type''
             = Some (Str ''text/markdown'')
         \<and> (CR \<notin> set decoded \<longrightarrow> universal_newlines decoded = decoded)"
  using assms
  by (simp add: setup_py_def py_open_def py_read_def long_description_value
      content_type_value universal_newlines_no_CR)

text \<open>
  A run for claim C9 as amended: a one-line file that ends in a line feed reaches
  \<^verbatim>\<open>setup\<close> as it is.
\<close>

theorem long_description_is_text_read_witness:
  "files \<lparr>files = [''README.md'' \<mapsto> RegularFile True ''# musicpal\<newline>''], decode = Some\<rparr>
      ''README.md'' = Some (RegularFile True ''# musicpal\<newline>'')
   \<and> setup_py register
        \<lparr>files = [''README.md'' \<mapsto> RegularFile True ''# musicpal\<newline>''], decode = Some\<rparr> []
       = (Inr (), [setup_kwargs ''# musicpal\<newline>''])
   \<and> kwarg (setup_kwargs ''# musicpal\<newline>'') ''long_description''
       = Some (Str ''# musicpal\<newline>'')"
  using long_description_is_text_read
    [of "\<lparr>files = [''README.md'' \<mapsto> RegularFile True ''# musicpal\<newline>''], decode = Some\<rparr>"
        "''# musicpal\<newline>''" "''# musicpal\<newline>''" register "[]"]
  by (simp add: register_def)

end
